theory Spec2Isabelle
  imports Main
begin

section \<open>Data model\<close>

text \<open>
  The clinic application keeps its records in a relational store and manipulates them
  through model classes (\<^verbatim>\<open>appointments/models.py\<close>, \<^verbatim>\<open>pos/models.py\<close>). Each model class
  becomes a record; fields that no modelled method reads (descriptions, notes, prices of
  catalogue entries, timestamps) are left out. A primary key is \<open>None\<close> on an object
  that has not been written yet. A foreign key to a catalogue entry that the modelled
  methods only read (\<open>service\<close>, \<open>package\<close>, \<open>order\<close>) holds the related object, as the
  attribute access \<^verbatim>\<open>self.package.total_sessions\<close> does; a nullable foreign key that the
  code follows to call a method (\<open>client_package\<close>, \<open>client_service_session\<close> of an
  appointment) holds the key of the row, which is loaded from the store when followed.
  Fields that several classes share keep the source's name and are written qualified
  (\<open>client_package.sessions_completed\<close>).

  \<^verbatim>\<open>PositiveIntegerField\<close> values are natural numbers, a \<^verbatim>\<open>DateField\<close> is a day number, a
  \<^verbatim>\<open>TimeField\<close> is Python's \<^verbatim>\<open>datetime.time\<close>, and a \<^verbatim>\<open>DecimalField\<close> with two decimal
  places is the exact integer number of hundredths.
\<close>

type_synonym date = int

record time =
  hour :: nat
  minute :: nat
  second :: nat
  microsecond :: nat

datatype status = Pending | Confirmed | Completed | Cancelled

datatype error =
  ValidationError string
  | IntegrityError string
  | DoesNotExist
  | MultipleObjectsReturned
  | DatabaseError
  | ValueError

text \<open>A result that is a raised \<^verbatim>\<open>ValidationError\<close>.\<close>

fun is_validation_error :: "error + 'a \<Rightarrow> bool" where
  "is_validation_error (Inl (ValidationError msg)) = True"
| "is_validation_error r = False"

record service =
  pk :: nat
  name :: string
  duration :: nat
  sessions_required :: nat

record package =
  pk :: "nat option"
  name :: string
  total_sessions :: nat

record client_package =
  pk :: "nat option"
  client :: nat
  package :: package
  sessions_completed :: nat
  is_completed :: bool
  assigned_date :: date
  completed_date :: "date option"

record client_service_session =
  pk :: "nat option"
  client :: nat
  service :: service
  sessions_completed :: nat
  is_completed :: bool
  started_date :: date
  completed_date :: "date option"

record appointment =
  pk :: "nat option"
  client :: nat
  service :: service
  staff :: nat
  appointment_date :: date
  appointment_time :: time
  status :: status
  client_package :: "nat option"
  client_service_session :: "nat option"

record product =
  pk :: nat
  name :: string

record order =
  pk :: nat
  total_price :: int

record order_item =
  pk :: "nat option"
  order :: order
  product :: "product option"
  service :: "service option"
  appointment :: "appointment option"
  quantity :: nat
  unit_price :: int
  subtotal :: int

text \<open>
  The store: one list of rows per table, in insertion order. \<open>package_services\<close> is the
  table behind the many-to-many field \<^verbatim>\<open>Package.services\<close>, as pairs (package key,
  service key).
\<close>

record database =
  packages :: "package list"
  package_services :: "(nat \<times> nat) list"
  client_packages :: "client_package list"
  client_service_sessions :: "client_service_session list"
  appointments :: "appointment list"
  orders :: "order list"
  order_items :: "order_item list"

definition empty_database :: database where
  "empty_database =
     \<lparr>packages = [], package_services = [], client_packages = [],
      client_service_sessions = [], appointments = [], orders = [], order_items = []\<rparr>"

subsection \<open>Writing a row\<close>

text \<open>
  \<^verbatim>\<open>models.Model.save\<close>: an object without a key is inserted under the next key of its
  table; an object with a key replaces the row of that key, and is inserted when the
  table has no such row.
\<close>

definition next_pk :: "('a \<Rightarrow> nat option) \<Rightarrow> 'a list \<Rightarrow> nat" where
  "next_pk key rows = Suc (foldr (\<lambda>r m. max (case key r of None \<Rightarrow> 0 | Some k \<Rightarrow> k) m) rows 0)"

definition write_row :: "('a \<Rightarrow> nat option) \<Rightarrow> 'a \<Rightarrow> 'a list \<Rightarrow> 'a list" where
  "write_row key obj rows =
     (if list_ex (\<lambda>r. key r = key obj) rows
      then map (\<lambda>r. if key r = key obj then obj else r) rows
      else rows @ [obj])"

definition super_save_client_package :: "database \<Rightarrow> client_package \<Rightarrow> database \<times> client_package" where
  "super_save_client_package db self =
     (let obj = (case client_package.pk self of
                   None \<Rightarrow> self\<lparr>client_package.pk := Some (next_pk client_package.pk (client_packages db))\<rparr>
                 | Some k \<Rightarrow> self)
      in (db\<lparr>client_packages := write_row client_package.pk obj (client_packages db)\<rparr>, obj))"

definition super_save_client_service_session ::
  "database \<Rightarrow> client_service_session \<Rightarrow> database \<times> client_service_session" where
  "super_save_client_service_session db self =
     (let obj = (case client_service_session.pk self of
                   None \<Rightarrow> self\<lparr>client_service_session.pk :=
                             Some (next_pk client_service_session.pk (client_service_sessions db))\<rparr>
                 | Some k \<Rightarrow> self)
      in (db\<lparr>client_service_sessions :=
               write_row client_service_session.pk obj (client_service_sessions db)\<rparr>, obj))"

section \<open>Session counters\<close>

text \<open>
  \<^verbatim>\<open>ClientPackage.save\<close> and \<^verbatim>\<open>ClientServiceSession.save\<close>: bring \<open>is_completed\<close> in line
  with the counter, then write the row. \<open>today\<close> is \<^verbatim>\<open>timezone.now().date()\<close>.
\<close>

definition ClientPackage_save :: "date \<Rightarrow> database \<Rightarrow> client_package \<Rightarrow> database \<times> client_package" where
  "ClientPackage_save today db self =
     super_save_client_package db
       (if client_package.sessions_completed self \<ge> package.total_sessions (client_package.package self)
        then (if \<not> client_package.is_completed self
              then (if client_package.completed_date self = None
                    then self\<lparr>client_package.is_completed := True,
                              client_package.completed_date := Some today\<rparr>
                    else self\<lparr>client_package.is_completed := True\<rparr>)
              else self)
        else (if client_package.is_completed self
              then self\<lparr>client_package.is_completed := False,
                        client_package.completed_date := None\<rparr>
              else self))"

definition ClientServiceSession_save ::
  "date \<Rightarrow> database \<Rightarrow> client_service_session \<Rightarrow> database \<times> client_service_session" where
  "ClientServiceSession_save today db self =
     super_save_client_service_session db
       (if client_service_session.sessions_completed self
             \<ge> service.sessions_required (client_service_session.service self)
        then (if \<not> client_service_session.is_completed self
              then (if client_service_session.completed_date self = None
                    then self\<lparr>client_service_session.is_completed := True,
                              client_service_session.completed_date := Some today\<rparr>
                    else self\<lparr>client_service_session.is_completed := True\<rparr>)
              else self)
        else (if client_service_session.is_completed self
              then self\<lparr>client_service_session.is_completed := False,
                        client_service_session.completed_date := None\<rparr>
              else self))"

text \<open>
  \<^verbatim>\<open>add_session\<close>: the result is the store, the object as the method leaves it, and the
  returned flag.
\<close>

definition ClientPackage_add_session ::
  "date \<Rightarrow> database \<Rightarrow> client_package \<Rightarrow> database \<times> client_package \<times> bool" where
  "ClientPackage_add_session today db self =
     (if \<not> client_package.is_completed self
      then (let s1 = self\<lparr>client_package.sessions_completed := client_package.sessions_completed self + 1\<rparr>;
                s2 = (if client_package.sessions_completed s1 \<ge> package.total_sessions (client_package.package s1)
                      then s1\<lparr>client_package.is_completed := True,
                              client_package.completed_date := Some today\<rparr>
                      else s1);
                (db', s3) = ClientPackage_save today db s2
            in (db', s3, True))
      else (db, self, False))"

definition ClientServiceSession_add_session ::
  "date \<Rightarrow> database \<Rightarrow> client_service_session \<Rightarrow> database \<times> client_service_session \<times> bool" where
  "ClientServiceSession_add_session today db self =
     (if \<not> client_service_session.is_completed self
      then (let s1 = self\<lparr>client_service_session.sessions_completed :=
                           client_service_session.sessions_completed self + 1\<rparr>;
                s2 = (if client_service_session.sessions_completed s1
                           \<ge> service.sessions_required (client_service_session.service s1)
                      then s1\<lparr>client_service_session.is_completed := True,
                              client_service_session.completed_date := Some today\<rparr>
                      else s1);
                (db', s3) = ClientServiceSession_save today db s2
            in (db', s3, True))
      else (db, self, False))"

section \<open>Appointments\<close>

subsection \<open>The overlap guard\<close>

text \<open>
  \<^verbatim>\<open>datetime.combine(date, time)\<close> as microseconds since the start of day 0, and
  \<^verbatim>\<open>timedelta(minutes=m)\<close> in the same unit. \<^verbatim>\<open>timezone.make_aware\<close> attaches the current
  time zone to both operands of every comparison below, which then compares the wall
  clock values.
\<close>

definition combine :: "date \<Rightarrow> time \<Rightarrow> int" where
  "combine d t =
     d * 86400000000
     + int (((time.hour t * 60 + time.minute t) * 60 + time.second t) * 1000000 + time.microsecond t)"

definition timedelta_minutes :: "nat \<Rightarrow> int" where
  "timedelta_minutes m = int m * 60000000"

definition start_datetime :: "appointment \<Rightarrow> int" where
  "start_datetime a = combine (appointment.appointment_date a) (appointment.appointment_time a)"

definition end_datetime :: "appointment \<Rightarrow> int" where
  "end_datetime a = start_datetime a + timedelta_minutes (service.duration (appointment.service a))"

text \<open>
  The loop of \<^verbatim>\<open>Appointment.clean\<close> over the active appointments of the staff member on
  the day: the first one that intersects raises. The message's formatted tail (time and
  service name of the existing appointment) is left out.
\<close>

fun check_overlapping :: "appointment \<Rightarrow> appointment list \<Rightarrow> error + unit" where
  "check_overlapping self [] = Inr ()"
| "check_overlapping self (existing_appt # rest) =
     (if start_datetime self < end_datetime existing_appt
         \<and> end_datetime self > start_datetime existing_appt
      then Inl (ValidationError ''Appointment overlaps with existing appointment'')
      else check_overlapping self rest)"

text \<open>
  \<^verbatim>\<open>Appointment.clean\<close>. The \<^verbatim>\<open>exclude(pk=None)\<close> of a new appointment removes no row: a
  stored row has a key.
\<close>

definition Appointment_clean :: "database \<Rightarrow> appointment \<Rightarrow> error + unit" where
  "Appointment_clean db self =
     (if appointment.pk self = None
      then check_overlapping self
             (filter (\<lambda>r. appointment.staff r = appointment.staff self
                          \<and> appointment.appointment_date r = appointment.appointment_date self
                          \<and> (appointment.status r = Pending \<or> appointment.status r = Confirmed))
                (appointments db))
      else Inr ())"

subsection \<open>Writing an appointment\<close>

text \<open>
  The constraint \<^verbatim>\<open>unique_staff_appointment_time\<close> of \<^verbatim>\<open>Appointment.Meta\<close>: the store refuses a
  row whose staff, date and time are those of another row.
\<close>

definition violates_unique_staff_appointment_time :: "appointment list \<Rightarrow> appointment \<Rightarrow> bool" where
  "violates_unique_staff_appointment_time rows obj =
     list_ex (\<lambda>r. appointment.pk r \<noteq> appointment.pk obj
                  \<and> appointment.staff r = appointment.staff obj
                  \<and> appointment.appointment_date r = appointment.appointment_date obj
                  \<and> appointment.appointment_time r = appointment.appointment_time obj) rows"

datatype appointment_field = Field_client_package | Field_client_service_session

text \<open>
  \<^verbatim>\<open>super().save(*args, **kwargs)\<close> of an appointment. Without \<^verbatim>\<open>update_fields\<close> the whole
  row is written; with \<^verbatim>\<open>update_fields=[f]\<close> only column \<open>f\<close> of the row with the
  object's key is written: it is a \<^verbatim>\<open>ValueError\<close> if the object has no key and a
  \<^verbatim>\<open>DatabaseError\<close> if no row has it.
\<close>

definition super_save_appointment ::
  "database \<Rightarrow> appointment \<Rightarrow> appointment_field option \<Rightarrow> database \<times> (error + appointment)" where
  "super_save_appointment db self update_fields =
     (case update_fields of
        None \<Rightarrow>
          (let obj = (case appointment.pk self of
                        None \<Rightarrow> self\<lparr>appointment.pk := Some (next_pk appointment.pk (appointments db))\<rparr>
                      | Some k \<Rightarrow> self)
           in if violates_unique_staff_appointment_time (appointments db) obj
              then (db, Inl (IntegrityError ''unique_staff_appointment_time''))
              else (db\<lparr>appointments := write_row appointment.pk obj (appointments db)\<rparr>, Inr obj))
      | Some f \<Rightarrow>
          (if appointment.pk self = None then (db, Inl ValueError)
           else if list_ex (\<lambda>r. appointment.pk r = appointment.pk self) (appointments db)
           then (db\<lparr>appointments :=
                      map (\<lambda>r. if appointment.pk r = appointment.pk self
                                then (case f of
                                        Field_client_package \<Rightarrow>
                                          r\<lparr>appointment.client_package := appointment.client_package self\<rparr>
                                      | Field_client_service_session \<Rightarrow>
                                          r\<lparr>appointment.client_service_session :=
                                               appointment.client_service_session self\<rparr>)
                                else r)
                        (appointments db)\<rparr>, Inr self)
           else (db, Inl DatabaseError)))"

subsection \<open>Queries of the session tracker\<close>

text \<open>
  \<^verbatim>\<open>ClientPackage.objects.filter(client=..., package__services=..., is_completed=False)\<close>
  in the model's default ordering \<^verbatim>\<open>['-assigned_date']\<close>; rows of the same date keep
  their table order.
\<close>

definition active_packages :: "database \<Rightarrow> appointment \<Rightarrow> client_package list" where
  "active_packages db self =
     sort_key (\<lambda>r. - client_package.assigned_date r)
       (filter (\<lambda>r. client_package.client r = appointment.client self
                    \<and> list_ex (\<lambda>(p, s). package.pk (client_package.package r) = Some p
                                         \<and> s = service.pk (appointment.service self))
                         (package_services db)
                    \<and> \<not> client_package.is_completed r)
          (client_packages db))"

text \<open>Following a foreign key: the row with that key.\<close>

definition get_client_package :: "database \<Rightarrow> nat \<Rightarrow> client_package option" where
  "get_client_package db k = find (\<lambda>r. client_package.pk r = Some k) (client_packages db)"

definition get_client_service_session :: "database \<Rightarrow> nat \<Rightarrow> client_service_session option" where
  "get_client_service_session db k =
     find (\<lambda>r. client_service_session.pk r = Some k) (client_service_sessions db)"

text \<open>
  \<^verbatim>\<open>ClientServiceSession.objects.get_or_create(client=..., service=...,
  defaults={'sessions_completed': 0})\<close>: the single matching row; a new object, saved
  through \<^verbatim>\<open>ClientServiceSession.save\<close>, when there is none; an error when there are
  several.
\<close>

definition get_or_create_client_service_session ::
  "date \<Rightarrow> database \<Rightarrow> nat \<Rightarrow> service \<Rightarrow> database \<times> (error + client_service_session)" where
  "get_or_create_client_service_session today db c s =
     (case filter (\<lambda>r. client_service_session.client r = c
                        \<and> service.pk (client_service_session.service r) = service.pk s)
             (client_service_sessions db) of
        [] \<Rightarrow>
          (let (db', obj) = ClientServiceSession_save today db
                 \<lparr>client_service_session.pk = None, client_service_session.client = c,
                  client_service_session.service = s,
                  client_service_session.sessions_completed = 0,
                  client_service_session.is_completed = False,
                  client_service_session.started_date = today,
                  client_service_session.completed_date = None\<rparr>
           in (db', Inr obj))
      | [x] \<Rightarrow> (db, Inr x)
      | _ \<Rightarrow> (db, Inl MultipleObjectsReturned))"






text \<open>
  The appointments that \<^verbatim>\<open>_auto_track_session\<close> is run for: stored before, marked completed,
  without a package or session link, and with a row that the store accepts.
\<close>

definition completed_unlinked :: "database \<Rightarrow> appointment \<Rightarrow> bool" where
  "completed_unlinked db a =
     (appointment.pk a \<noteq> None \<and> appointment.status a = Completed
      \<and> appointment.client_package a = None \<and> appointment.client_service_session a = None
      \<and> \<not> violates_unique_staff_appointment_time (appointments db) a)"

section \<open>Packages\<close>

text \<open>
  The truth value of \<^verbatim>\<open>self.pk\<close>: false for \<^verbatim>\<open>None\<close> and for \<open>0\<close>. \<^verbatim>\<open>self.services\<close> are the
  service keys that the many-to-many table links to the package's key.
\<close>

definition truthy_pk :: "nat option \<Rightarrow> bool" where
  "truthy_pk k = (case k of None \<Rightarrow> False | Some n \<Rightarrow> n \<noteq> 0)"

definition linked_services :: "database \<Rightarrow> package \<Rightarrow> nat list" where
  "linked_services db self =
     map snd (filter (\<lambda>(p, s). Some p = package.pk self) (package_services db))"

text \<open>\<^verbatim>\<open>Package.clean\<close>.\<close>

definition Package_clean :: "database \<Rightarrow> package \<Rightarrow> error + unit" where
  "Package_clean db self =
     (if truthy_pk (package.pk self)
      then (let service_count = length (linked_services db self)
            in if service_count < 3
               then Inl (ValidationError ''Package must include at least 3 services.'')
               else if service_count > 5
               then Inl (ValidationError ''Package cannot include more than 5 services.'')
               else Inr ())
      else Inr ())"

definition super_save_package :: "database \<Rightarrow> package \<Rightarrow> database \<times> package" where
  "super_save_package db self =
     (let obj = (case package.pk self of
                   None \<Rightarrow> self\<lparr>package.pk := Some (next_pk package.pk (packages db))\<rparr>
                 | Some k \<Rightarrow> self)
      in (db\<lparr>packages := write_row package.pk obj (packages db)\<rparr>, obj))"

text \<open>
  \<^verbatim>\<open>Package.save\<close>: the row is written first; validation runs afterwards, and only when
  the package has linked services (\<^verbatim>\<open>self.services.exists()\<close>).
\<close>

definition Package_save :: "database \<Rightarrow> package \<Rightarrow> database \<times> (error + package)" where
  "Package_save db self =
     (case super_save_package db self of
        (db1, self1) \<Rightarrow>
          if truthy_pk (package.pk self1) \<and> linked_services db1 self1 \<noteq> []
          then (case Package_clean db1 self1 of
                  Inl e \<Rightarrow> (db1, Inl e)
                | Inr u \<Rightarrow> (db1, Inr self1))
          else (db1, Inr self1))"

section \<open>Point of sale\<close>










section \<open>Example records\<close>

definition example_package :: package where
  "example_package = \<lparr>package.pk = Some 1, package.name = ''Glow'', package.total_sessions = 3\<rparr>"

definition example_client_package :: "nat \<Rightarrow> bool \<Rightarrow> date option \<Rightarrow> client_package" where
  "example_client_package n c d =
     \<lparr>client_package.pk = Some 1, client_package.client = 1, client_package.package = example_package,
      client_package.sessions_completed = n, client_package.is_completed = c,
      client_package.assigned_date = 100, client_package.completed_date = d\<rparr>"


definition example_service :: "nat \<Rightarrow> service" where
  "example_service n = \<lparr>service.pk = 7, service.name = ''Laser'', service.duration = 60,
     service.sessions_required = n\<rparr>"

definition example_client_service_session :: "nat \<Rightarrow> bool \<Rightarrow> date option \<Rightarrow> client_service_session" where
  "example_client_service_session n c d =
     \<lparr>client_service_session.pk = Some 1, client_service_session.client = 1,
      client_service_session.service = example_service 3,
      client_service_session.sessions_completed = n, client_service_session.is_completed = c,
      client_service_session.started_date = 100, client_service_session.completed_date = d\<rparr>"

definition at_time :: "nat \<Rightarrow> nat \<Rightarrow> time" where
  "at_time h m = \<lparr>time.hour = h, time.minute = m, time.second = 0, time.microsecond = 0\<rparr>"

definition example_appointment :: "nat option \<Rightarrow> nat \<Rightarrow> time \<Rightarrow> status \<Rightarrow> appointment" where
  "example_appointment k n t st =
     \<lparr>appointment.pk = k, appointment.client = 1, appointment.service = example_service n,
      appointment.staff = 1, appointment.appointment_date = 300, appointment.appointment_time = t,
      appointment.status = st, appointment.client_package = None,
      appointment.client_service_session = None\<rparr>"



definition example_database :: "client_package list \<Rightarrow> client_service_session list \<Rightarrow> nat \<Rightarrow> database" where
  "example_database cps sessions n =
     empty_database\<lparr>package_services := [(1, 7)], client_packages := cps,
       client_service_sessions := sessions,
       appointments := [example_appointment (Some 1) n (at_time 10 0) Confirmed]\<rparr>"

definition linked_database :: "nat list \<Rightarrow> database" where
  "linked_database ss = empty_database\<lparr>package_services := map (Pair 1) ss\<rparr>"







section \<open>Facts about rows and counters\<close>


lemma write_row_idem: "write_row key obj (write_row key obj rows) = write_row key obj rows"
proof (cases "list_ex (\<lambda>r. key r = key obj) rows")
  case True
  then have "list_ex (\<lambda>r. key r = key obj) (map (\<lambda>r. if key r = key obj then obj else r) rows)"
    by (auto simp: list_ex_iff)
  with True show ?thesis
    by (simp add: write_row_def)
next
  case False
  then have "\<forall>r\<in>set rows. key r \<noteq> key obj" by (simp add: list_ex_iff)
  then have "map (\<lambda>r. if key r = key obj then obj else r) rows = rows"
    by (simp add: map_idI)
  with False show ?thesis
    by (simp add: write_row_def)
qed

lemma write_row_mem: "obj \<in> set (write_row key obj rows)"
  unfolding write_row_def by (auto simp: list_ex_iff)

lemma write_row_fixed:
  assumes "list_ex (\<lambda>r. key r = key obj) rows" and "\<forall>r\<in>set rows. key r = key obj \<longrightarrow> r = obj"
  shows "write_row key obj rows = rows"
proof -
  have "map (\<lambda>r. if key r = key obj then obj else r) rows = rows"
    using assms(2) by (intro map_idI) auto
  with assms(1) show ?thesis by (simp add: write_row_def)
qed

lemma snd_super_save_cp:
  "snd (super_save_client_package db self) =
     (case client_package.pk self of
        None \<Rightarrow> self\<lparr>client_package.pk := Some (next_pk client_package.pk (client_packages db))\<rparr>
      | Some k \<Rightarrow> self)"
  by (simp add: super_save_client_package_def Let_def)

lemma super_save_cp_mem:
  "snd (super_save_client_package db self) \<in> set (client_packages (fst (super_save_client_package db self)))"
  by (simp add: super_save_client_package_def Let_def write_row_mem)

lemma add_session_cp_open:
  assumes "\<not> client_package.is_completed cp"
  shows "ClientPackage_add_session today db cp =
     (let s2 = (if client_package.sessions_completed cp + 1 \<ge> package.total_sessions (client_package.package cp)
                then cp\<lparr>client_package.sessions_completed := client_package.sessions_completed cp + 1,
                        client_package.is_completed := True, client_package.completed_date := Some today\<rparr>
                else cp\<lparr>client_package.sessions_completed := client_package.sessions_completed cp + 1\<rparr>)
      in (fst (super_save_client_package db s2), snd (super_save_client_package db s2), True))"
  using assms
  by (simp add: ClientPackage_add_session_def ClientPackage_save_def Let_def split_beta)


lemma snd_super_save_cp_fields:
  "client_package.sessions_completed (snd (super_save_client_package db s)) = client_package.sessions_completed s"
  "client_package.is_completed (snd (super_save_client_package db s)) = client_package.is_completed s"
  "client_package.completed_date (snd (super_save_client_package db s)) = client_package.completed_date s"
  "client_package.package (snd (super_save_client_package db s)) = client_package.package s"
  by (simp_all add: snd_super_save_cp split: option.split)

lemma snd_super_save_css:
  "snd (super_save_client_service_session db self) =
     (case client_service_session.pk self of
        None \<Rightarrow> self\<lparr>client_service_session.pk :=
                  Some (next_pk client_service_session.pk (client_service_sessions db))\<rparr>
      | Some k \<Rightarrow> self)"
  by (simp add: super_save_client_service_session_def Let_def)

lemma snd_super_save_css_fields:
  "client_service_session.sessions_completed (snd (super_save_client_service_session db s)) = client_service_session.sessions_completed s"
  "client_service_session.is_completed (snd (super_save_client_service_session db s)) = client_service_session.is_completed s"
  "client_service_session.completed_date (snd (super_save_client_service_session db s)) = client_service_session.completed_date s"
  "client_service_session.service (snd (super_save_client_service_session db s)) = client_service_session.service s"
  by (simp_all add: snd_super_save_css split: option.split)

lemma super_save_css_mem:
  "snd (super_save_client_service_session db self)
     \<in> set (client_service_sessions (fst (super_save_client_service_session db self)))"
  by (simp add: super_save_client_service_session_def Let_def write_row_mem)

lemma add_session_css_open:
  assumes "\<not> client_service_session.is_completed s"
  shows "ClientServiceSession_add_session today db s =
     (let s2 = (if client_service_session.sessions_completed s + 1
                     \<ge> service.sessions_required (client_service_session.service s)
                then s\<lparr>client_service_session.sessions_completed := client_service_session.sessions_completed s + 1,
                       client_service_session.is_completed := True,
                       client_service_session.completed_date := Some today\<rparr>
                else s\<lparr>client_service_session.sessions_completed := client_service_session.sessions_completed s + 1\<rparr>)
      in (fst (super_save_client_service_session db s2), snd (super_save_client_service_session db s2), True))"
  using assms
  by (simp add: ClientServiceSession_add_session_def ClientServiceSession_save_def Let_def split_beta)

lemma add_session_cp_pk:
  assumes "\<not> client_package.is_completed p"
  shows "client_package.pk (fst (snd (ClientPackage_add_session today db p))) \<noteq> None"
  using assms by (simp add: add_session_cp_open Let_def snd_super_save_cp split: option.split)

lemma add_session_css_pk:
  assumes "\<not> client_service_session.is_completed s"
  shows "client_service_session.pk (fst (snd (ClientServiceSession_add_session today db s))) \<noteq> None"
  using assms by (simp add: add_session_css_open Let_def snd_super_save_css split: option.split)

section \<open>Saving an appointment\<close>

subsection \<open>Facts used by the termination proof\<close>

lemma super_save_appointment_links:
  assumes "super_save_appointment db self uf = (db1, Inr self1)"
  shows "appointment.client_package self1 = appointment.client_package self"
    and "appointment.client_service_session self1 = appointment.client_service_session self"
    and "appointment.status self1 = appointment.status self"
  using assms
  by (auto simp: super_save_appointment_def Let_def split: option.splits if_splits)

lemma active_packages_open:
  assumes "active_packages db self = p # ps"
  shows "\<not> client_package.is_completed p"
proof -
  have "p \<in> set (active_packages db self)" using assms by simp
  then show ?thesis by (simp add: active_packages_def)
qed

subsection \<open>The save and the session tracker\<close>

text \<open>
  \<^verbatim>\<open>Appointment.save\<close> and \<^verbatim>\<open>Appointment._auto_track_session\<close>, which call each other:
  \<^verbatim>\<open>_auto_track_session\<close> ends in \<^verbatim>\<open>self.save(update_fields=[...])\<close>, which is
  \<^verbatim>\<open>Appointment.save\<close> again. \<^verbatim>\<open>full_clean\<close> is the \<^verbatim>\<open>clean\<close> above (the fields hold
  values of their types). The result is the store as the call leaves it, and the
  error raised or the object as saved. The key of the object that \<^verbatim>\<open>_auto_track_session\<close>
  links is read when the appointment is written, after \<^verbatim>\<open>add_session\<close> has saved
  that object.
\<close>

function Appointment_save ::
    "date \<Rightarrow> database \<Rightarrow> appointment \<Rightarrow> appointment_field option \<Rightarrow> database \<times> (error + appointment)"
  and Appointment_auto_track_session ::
    "date \<Rightarrow> database \<Rightarrow> appointment \<Rightarrow> database \<times> (error + appointment)"
where
  "Appointment_save today db self update_fields =
     (case Appointment_clean db self of
        Inl e \<Rightarrow> (db, Inl e)
      | Inr u \<Rightarrow>
          (let is_new = (appointment.pk self = None) in
           case super_save_appointment db self update_fields of
             (db1, Inl e) \<Rightarrow> (db1, Inl e)
           | (db1, Inr self1) \<Rightarrow>
               if appointment.status self1 = Completed \<and> \<not> is_new
               then (case appointment.client_package self1 of
                       Some k \<Rightarrow>
                         (case get_client_package db1 k of
                            None \<Rightarrow> (db1, Inl DoesNotExist)
                          | Some p \<Rightarrow> (fst (ClientPackage_add_session today db1 p), Inr self1))
                     | None \<Rightarrow>
                         (case appointment.client_service_session self1 of
                            Some k \<Rightarrow>
                              (case get_client_service_session db1 k of
                                 None \<Rightarrow> (db1, Inl DoesNotExist)
                               | Some s \<Rightarrow> (fst (ClientServiceSession_add_session today db1 s), Inr self1))
                          | None \<Rightarrow> Appointment_auto_track_session today db1 self1))
               else (db1, Inr self1)))"
| "Appointment_auto_track_session today db self =
     (case active_packages db self of
        first_package # others \<Rightarrow>
          (case ClientPackage_add_session today db first_package of
             (db1, first_package1, added) \<Rightarrow>
               Appointment_save today db1
                 (self\<lparr>appointment.client_package := client_package.pk first_package1\<rparr>)
                 (Some Field_client_package))
      | [] \<Rightarrow>
          if service.sessions_required (appointment.service self) > 1
          then (case get_or_create_client_service_session today db
                       (appointment.client self) (appointment.service self) of
                  (db1, Inl e) \<Rightarrow> (db1, Inl e)
                | (db1, Inr service_session) \<Rightarrow>
                    if \<not> client_service_session.is_completed service_session
                    then (case ClientServiceSession_add_session today db1 service_session of
                            (db2, service_session1, added) \<Rightarrow>
                              Appointment_save today db2
                                (self\<lparr>appointment.client_service_session :=
                                        client_service_session.pk service_session1\<rparr>)
                                (Some Field_client_service_session))
                    else (db1, Inr self))
          else (db, Inr self))"
  by pat_completeness auto

termination
proof (relation "measure (\<lambda>x. case x of
          Inl (today, db, self, uf) \<Rightarrow>
            (if appointment.client_package self = None \<and> appointment.client_service_session self = None
             then 2 else 0)
        | Inr (today, db, self) \<Rightarrow> 1)", goal_cases)
  case 1
  show ?case by simp
next
  case (2 today db self update_fields b x xa y ba)
  from 2(3) [symmetric] 2(4) have "super_save_appointment db self update_fields = (xa, Inr ba)"
    by simp
  from super_save_appointment_links(1,2) [OF this] 2(6,7) show ?case
    by simp
next
  case (3 today db self x y b xa ya xb yb)
  from add_session_css_pk [OF 3(5), of today x] 3(6) [symmetric] 3(7) [symmetric] show ?case
    by simp
next
  case (4 today db self p ps x y xa ya)
  from add_session_cp_pk [OF active_packages_open [OF 4(1)], of today db]
    4(2) [symmetric] 4(3) [symmetric] show ?case
    by simp
qed

declare Appointment_save.simps [simp del] Appointment_auto_track_session.simps [simp del]

section \<open>Properties of the session counters\<close>

text \<open>
  Claim C2. On a record that is not completed, \<open>add_session\<close> returns success, raises
  \<open>sessions_completed\<close> by exactly one and writes the record; when the raised counter
  reaches the target (\<open>package.total_sessions\<close>, resp. \<open>service.sessions_required\<close>) it sets
  \<open>is_completed\<close> and stamps \<open>completed_date\<close> with today's date. On a completed record it
  returns failure and leaves the record and the store as they were.
\<close>

theorem add_session_counts_one:
  "(\<not> client_package.is_completed cp \<longrightarrow>
      (case ClientPackage_add_session today db cp of (db', cp', ok) \<Rightarrow>
         ok \<and> client_package.sessions_completed cp' = client_package.sessions_completed cp + 1
         \<and> (client_package.sessions_completed cp + 1 \<ge> package.total_sessions (client_package.package cp)
              \<longrightarrow> client_package.is_completed cp' \<and> client_package.completed_date cp' = Some today)
         \<and> cp' \<in> set (client_packages db')))
   \<and> (client_package.is_completed cp \<longrightarrow> ClientPackage_add_session today db cp = (db, cp, False))
   \<and> (\<not> client_service_session.is_completed s \<longrightarrow>
      (case ClientServiceSession_add_session today db s of (db', s', ok) \<Rightarrow>
         ok \<and> client_service_session.sessions_completed s' = client_service_session.sessions_completed s + 1
         \<and> (client_service_session.sessions_completed s + 1
               \<ge> service.sessions_required (client_service_session.service s)
              \<longrightarrow> client_service_session.is_completed s' \<and> client_service_session.completed_date s' = Some today)
         \<and> s' \<in> set (client_service_sessions db')))
   \<and> (client_service_session.is_completed s \<longrightarrow> ClientServiceSession_add_session today db s = (db, s, False))"
proof (intro conjI impI)
  assume "\<not> client_package.is_completed cp"
  then show "case ClientPackage_add_session today db cp of (db', cp', ok) \<Rightarrow>
         ok \<and> client_package.sessions_completed cp' = client_package.sessions_completed cp + 1
         \<and> (client_package.sessions_completed cp + 1 \<ge> package.total_sessions (client_package.package cp)
              \<longrightarrow> client_package.is_completed cp' \<and> client_package.completed_date cp' = Some today)
         \<and> cp' \<in> set (client_packages db')"
    by (simp add: add_session_cp_open Let_def snd_super_save_cp_fields super_save_cp_mem)
next
  assume "client_package.is_completed cp"
  then show "ClientPackage_add_session today db cp = (db, cp, False)"
    by (simp add: ClientPackage_add_session_def)
next
  assume "\<not> client_service_session.is_completed s"
  then show "case ClientServiceSession_add_session today db s of (db', s', ok) \<Rightarrow>
         ok \<and> client_service_session.sessions_completed s' = client_service_session.sessions_completed s + 1
         \<and> (client_service_session.sessions_completed s + 1
               \<ge> service.sessions_required (client_service_session.service s)
              \<longrightarrow> client_service_session.is_completed s' \<and> client_service_session.completed_date s' = Some today)
         \<and> s' \<in> set (client_service_sessions db')"
    by (simp add: add_session_css_open Let_def snd_super_save_css_fields super_save_css_mem)
next
  assume "client_service_session.is_completed s"
  then show "ClientServiceSession_add_session today db s = (db, s, False)"
    by (simp add: ClientServiceSession_add_session_def)
qed


theorem add_session_counts_one_witness:
  "\<not> client_package.is_completed (example_client_package 2 False None)
   \<and> (case ClientPackage_add_session 200 empty_database (example_client_package 2 False None) of
        (db', cp', ok) \<Rightarrow>
          ok \<and> client_package.sessions_completed cp' = 3 \<and> client_package.is_completed cp'
          \<and> client_package.completed_date cp' = Some 200 \<and> cp' \<in> set (client_packages db'))
   \<and> client_package.is_completed (example_client_package 3 True (Some 150))
   \<and> ClientPackage_add_session 200 empty_database (example_client_package 3 True (Some 150))
       = (empty_database, example_client_package 3 True (Some 150), False)
   \<and> \<not> client_service_session.is_completed (example_client_service_session 2 False None)
   \<and> (case ClientServiceSession_add_session 200 empty_database (example_client_service_session 2 False None) of
        (db', s', ok) \<Rightarrow>
          ok \<and> client_service_session.sessions_completed s' = 3 \<and> client_service_session.is_completed s'
          \<and> client_service_session.completed_date s' = Some 200 \<and> s' \<in> set (client_service_sessions db'))
   \<and> client_service_session.is_completed (example_client_service_session 3 True (Some 150))
   \<and> ClientServiceSession_add_session 200 empty_database (example_client_service_session 3 True (Some 150))
       = (empty_database, example_client_service_session 3 True (Some 150), False)"
proof -
  have o: "\<not> client_package.is_completed (example_client_package 2 False None)"
      "client_package.sessions_completed (example_client_package 2 False None) = 2"
      "package.total_sessions (client_package.package (example_client_package 2 False None)) = 3"
    by (simp_all add: example_client_package_def example_package_def)
  have c: "client_package.is_completed (example_client_package 3 True (Some 150))"
    by (simp add: example_client_package_def)
  have so: "\<not> client_service_session.is_completed (example_client_service_session 2 False None)"
      "client_service_session.sessions_completed (example_client_service_session 2 False None) = 2"
      "service.sessions_required (client_service_session.service (example_client_service_session 2 False None)) = 3"
    by (simp_all add: example_client_service_session_def example_service_def)
  have sc: "client_service_session.is_completed (example_client_service_session 3 True (Some 150))"
    by (simp add: example_client_service_session_def)
  show ?thesis
    using o c so sc
      add_session_counts_one [where cp = "example_client_package 2 False None" and today = 200
        and db = empty_database and s = "example_client_service_session 2 False None"]
      add_session_counts_one [where cp = "example_client_package 3 True (Some 150)" and today = 200
        and db = empty_database and s = "example_client_service_session 3 True (Some 150)"]
    by (simp split: prod.splits)
qed

lemma super_save_cp_idem:
  "super_save_client_package (fst (super_save_client_package db s)) (snd (super_save_client_package db s))
     = super_save_client_package db s"
  by (simp add: super_save_client_package_def Let_def write_row_idem split: option.split)

lemma super_save_css_idem:
  "super_save_client_service_session (fst (super_save_client_service_session db s))
       (snd (super_save_client_service_session db s))
     = super_save_client_service_session db s"
  by (simp add: super_save_client_service_session_def Let_def write_row_idem split: option.split)

lemma ClientPackage_save_idem:
  "ClientPackage_save today' (fst (ClientPackage_save today db cp)) (snd (ClientPackage_save today db cp))
     = ClientPackage_save today db cp"
proof -
  define adj where "adj =
       (if client_package.sessions_completed cp \<ge> package.total_sessions (client_package.package cp)
        then (if \<not> client_package.is_completed cp
              then (if client_package.completed_date cp = None
                    then cp\<lparr>client_package.is_completed := True,
                              client_package.completed_date := Some today\<rparr>
                    else cp\<lparr>client_package.is_completed := True\<rparr>)
              else cp)
        else (if client_package.is_completed cp
              then cp\<lparr>client_package.is_completed := False,
                        client_package.completed_date := None\<rparr>
              else cp))"
  have s: "ClientPackage_save today db cp = super_save_client_package db adj"
    by (simp add: ClientPackage_save_def adj_def)
  have inv: "client_package.is_completed adj
      = (client_package.sessions_completed adj \<ge> package.total_sessions (client_package.package adj))"
    by (simp add: adj_def)
  have "ClientPackage_save today' (fst (super_save_client_package db adj)) (snd (super_save_client_package db adj))
      = super_save_client_package (fst (super_save_client_package db adj)) (snd (super_save_client_package db adj))"
    using inv by (simp add: ClientPackage_save_def snd_super_save_cp_fields)
  then show ?thesis by (simp add: s super_save_cp_idem)
qed

lemma ClientServiceSession_save_idem:
  "ClientServiceSession_save today' (fst (ClientServiceSession_save today db s))
       (snd (ClientServiceSession_save today db s))
     = ClientServiceSession_save today db s"
proof -
  define adj where "adj =
       (if client_service_session.sessions_completed s
             \<ge> service.sessions_required (client_service_session.service s)
        then (if \<not> client_service_session.is_completed s
              then (if client_service_session.completed_date s = None
                    then s\<lparr>client_service_session.is_completed := True,
                           client_service_session.completed_date := Some today\<rparr>
                    else s\<lparr>client_service_session.is_completed := True\<rparr>)
              else s)
        else (if client_service_session.is_completed s
              then s\<lparr>client_service_session.is_completed := False,
                     client_service_session.completed_date := None\<rparr>
              else s))"
  have s: "ClientServiceSession_save today db s = super_save_client_service_session db adj"
    by (simp add: ClientServiceSession_save_def adj_def)
  have inv: "client_service_session.is_completed adj
      = (client_service_session.sessions_completed adj
          \<ge> service.sessions_required (client_service_session.service adj))"
    by (simp add: adj_def)
  have "ClientServiceSession_save today' (fst (super_save_client_service_session db adj))
          (snd (super_save_client_service_session db adj))
      = super_save_client_service_session (fst (super_save_client_service_session db adj))
          (snd (super_save_client_service_session db adj))"
    using inv by (simp add: ClientServiceSession_save_def snd_super_save_css_fields)
  then show ?thesis by (simp add: s super_save_css_idem)
qed

lemma ClientPackage_save_fields:
  fixes p today db
  defines "q \<equiv> snd (ClientPackage_save today db p)"
  shows "client_package.sessions_completed q = client_package.sessions_completed p"
    and "client_package.package q = client_package.package p"
    and "client_package.is_completed q
           = (client_package.sessions_completed p \<ge> package.total_sessions (client_package.package p))"
    and "client_package.completed_date q =
           (if client_package.sessions_completed p \<ge> package.total_sessions (client_package.package p)
            then (if \<not> client_package.is_completed p \<and> client_package.completed_date p = None
                  then Some today else client_package.completed_date p)
            else (if client_package.is_completed p then None else client_package.completed_date p))"
    and "q \<in> set (client_packages (fst (ClientPackage_save today db p)))"
  unfolding q_def
  by (simp_all add: ClientPackage_save_def snd_super_save_cp_fields super_save_cp_mem)

lemma ClientServiceSession_save_fields:
  fixes s today db
  defines "q \<equiv> snd (ClientServiceSession_save today db s)"
  shows "client_service_session.sessions_completed q = client_service_session.sessions_completed s"
    and "client_service_session.service q = client_service_session.service s"
    and "client_service_session.is_completed q
           = (client_service_session.sessions_completed s
               \<ge> service.sessions_required (client_service_session.service s))"
    and "client_service_session.completed_date q =
           (if client_service_session.sessions_completed s
                 \<ge> service.sessions_required (client_service_session.service s)
            then (if \<not> client_service_session.is_completed s \<and> client_service_session.completed_date s = None
                  then Some today else client_service_session.completed_date s)
            else (if client_service_session.is_completed s then None
                  else client_service_session.completed_date s))"
    and "q \<in> set (client_service_sessions (fst (ClientServiceSession_save today db s)))"
  unfolding q_def
  by (simp_all add: ClientServiceSession_save_def snd_super_save_css_fields super_save_css_mem)

text \<open>
  Claim C4 (as amended). Every save leaves \<open>is_completed = (sessions_completed \<ge> target)\<close>
  and the counter as it was. A save that turns the flag on (counter at or above the target,
  flag off) stamps \<open>completed_date\<close> with today's date if it was unset and keeps a date
  already there; a save that turns the flag off (counter below the target, flag on) sets
  \<open>completed_date\<close> to null; a save that finds the flag already in line with the counter
  leaves \<open>completed_date\<close> as it is. The saved record is the stored row, and saving the
  result again, on any day, changes neither the record nor the store.
\<close>

theorem save_recomputes_completion:
  "(let p' = snd (ClientPackage_save today db p);
        target = package.total_sessions (client_package.package p) in
      client_package.sessions_completed p' = client_package.sessions_completed p
      \<and> client_package.package p' = client_package.package p
      \<and> client_package.is_completed p' = (client_package.sessions_completed p' \<ge> target)
      \<and> (client_package.sessions_completed p \<ge> target \<and> \<not> client_package.is_completed p \<longrightarrow>
            client_package.completed_date p'
              = (case client_package.completed_date p of None \<Rightarrow> Some today | Some d \<Rightarrow> Some d))
      \<and> (client_package.sessions_completed p < target \<and> client_package.is_completed p \<longrightarrow>
            client_package.completed_date p' = None)
      \<and> (client_package.is_completed p = (client_package.sessions_completed p \<ge> target) \<longrightarrow>
            client_package.completed_date p' = client_package.completed_date p)
      \<and> p' \<in> set (client_packages (fst (ClientPackage_save today db p)))
      \<and> ClientPackage_save later (fst (ClientPackage_save today db p)) p' = ClientPackage_save today db p)
   \<and> (let s' = snd (ClientServiceSession_save today db s);
           target = service.sessions_required (client_service_session.service s) in
      client_service_session.sessions_completed s' = client_service_session.sessions_completed s
      \<and> client_service_session.service s' = client_service_session.service s
      \<and> client_service_session.is_completed s' = (client_service_session.sessions_completed s' \<ge> target)
      \<and> (client_service_session.sessions_completed s \<ge> target \<and> \<not> client_service_session.is_completed s \<longrightarrow>
            client_service_session.completed_date s'
              = (case client_service_session.completed_date s of None \<Rightarrow> Some today | Some d \<Rightarrow> Some d))
      \<and> (client_service_session.sessions_completed s < target \<and> client_service_session.is_completed s \<longrightarrow>
            client_service_session.completed_date s' = None)
      \<and> (client_service_session.is_completed s = (client_service_session.sessions_completed s \<ge> target) \<longrightarrow>
            client_service_session.completed_date s' = client_service_session.completed_date s)
      \<and> s' \<in> set (client_service_sessions (fst (ClientServiceSession_save today db s)))
      \<and> ClientServiceSession_save later (fst (ClientServiceSession_save today db s)) s'
          = ClientServiceSession_save today db s)"
proof -
  have a: "(let p' = snd (ClientPackage_save today db p);
        target = package.total_sessions (client_package.package p) in
      client_package.sessions_completed p' = client_package.sessions_completed p
      \<and> client_package.package p' = client_package.package p
      \<and> client_package.is_completed p' = (client_package.sessions_completed p' \<ge> target)
      \<and> (client_package.sessions_completed p \<ge> target \<and> \<not> client_package.is_completed p \<longrightarrow>
            client_package.completed_date p'
              = (case client_package.completed_date p of None \<Rightarrow> Some today | Some d \<Rightarrow> Some d))
      \<and> (client_package.sessions_completed p < target \<and> client_package.is_completed p \<longrightarrow>
            client_package.completed_date p' = None)
      \<and> (client_package.is_completed p = (client_package.sessions_completed p \<ge> target) \<longrightarrow>
            client_package.completed_date p' = client_package.completed_date p)
      \<and> p' \<in> set (client_packages (fst (ClientPackage_save today db p)))
      \<and> ClientPackage_save later (fst (ClientPackage_save today db p)) p' = ClientPackage_save today db p)"
    unfolding Let_def
    by (simp add: ClientPackage_save_fields ClientPackage_save_idem split: option.split)
  have b: "(let s' = snd (ClientServiceSession_save today db s);
           target = service.sessions_required (client_service_session.service s) in
      client_service_session.sessions_completed s' = client_service_session.sessions_completed s
      \<and> client_service_session.service s' = client_service_session.service s
      \<and> client_service_session.is_completed s' = (client_service_session.sessions_completed s' \<ge> target)
      \<and> (client_service_session.sessions_completed s \<ge> target \<and> \<not> client_service_session.is_completed s \<longrightarrow>
            client_service_session.completed_date s'
              = (case client_service_session.completed_date s of None \<Rightarrow> Some today | Some d \<Rightarrow> Some d))
      \<and> (client_service_session.sessions_completed s < target \<and> client_service_session.is_completed s \<longrightarrow>
            client_service_session.completed_date s' = None)
      \<and> (client_service_session.is_completed s = (client_service_session.sessions_completed s \<ge> target) \<longrightarrow>
            client_service_session.completed_date s' = client_service_session.completed_date s)
      \<and> s' \<in> set (client_service_sessions (fst (ClientServiceSession_save today db s)))
      \<and> ClientServiceSession_save later (fst (ClientServiceSession_save today db s)) s'
          = ClientServiceSession_save today db s)"
    unfolding Let_def
    by (simp add: ClientServiceSession_save_fields ClientServiceSession_save_idem split: option.split)
  from a b show ?thesis by (rule conjI)
qed

theorem save_keeps_unset_date_counterexample:
  "client_package.sessions_completed (example_client_package 3 True None)
     \<ge> package.total_sessions (client_package.package (example_client_package 3 True None))
   \<and> client_package.completed_date (example_client_package 3 True None) = None
   \<and> client_package.completed_date
        (snd (ClientPackage_save 200 empty_database (example_client_package 3 True None))) = None"
  by (simp add: ClientPackage_save_def super_save_client_package_def example_client_package_def
      example_package_def Let_def)


theorem save_recomputes_completion_witness:
  "(client_package.sessions_completed (example_client_package 3 False None)
      \<ge> package.total_sessions (client_package.package (example_client_package 3 False None))
    \<and> \<not> client_package.is_completed (example_client_package 3 False None)
    \<and> client_package.is_completed (snd (ClientPackage_save 200 empty_database (example_client_package 3 False None)))
    \<and> client_package.completed_date
          (snd (ClientPackage_save 200 empty_database (example_client_package 3 False None))) = Some 200)
   \<and> (client_package.sessions_completed (example_client_package 2 True (Some 150))
      < package.total_sessions (client_package.package (example_client_package 2 True (Some 150)))
    \<and> client_package.is_completed (example_client_package 2 True (Some 150))
    \<and> \<not> client_package.is_completed
          (snd (ClientPackage_save 200 empty_database (example_client_package 2 True (Some 150))))
    \<and> client_package.completed_date
          (snd (ClientPackage_save 200 empty_database (example_client_package 2 True (Some 150)))) = None)
   \<and> (client_package.is_completed (example_client_package 1 False (Some 150))
    = (client_package.sessions_completed (example_client_package 1 False (Some 150))
      \<ge> package.total_sessions (client_package.package (example_client_package 1 False (Some 150))))
    \<and> client_package.completed_date
          (snd (ClientPackage_save 200 empty_database (example_client_package 1 False (Some 150)))) = Some 150)
   \<and> (client_service_session.sessions_completed (example_client_service_session 3 False None)
      \<ge> service.sessions_required (client_service_session.service (example_client_service_session 3 False None))
    \<and> \<not> client_service_session.is_completed (example_client_service_session 3 False None)
    \<and> client_service_session.is_completed
          (snd (ClientServiceSession_save 200 empty_database (example_client_service_session 3 False None)))
    \<and> client_service_session.completed_date
          (snd (ClientServiceSession_save 200 empty_database (example_client_service_session 3 False None)))
        = Some 200)
   \<and> (client_service_session.sessions_completed (example_client_service_session 2 True (Some 150))
      < service.sessions_required
          (client_service_session.service (example_client_service_session 2 True (Some 150)))
    \<and> client_service_session.is_completed (example_client_service_session 2 True (Some 150))
    \<and> \<not> client_service_session.is_completed
          (snd (ClientServiceSession_save 200 empty_database (example_client_service_session 2 True (Some 150))))
    \<and> client_service_session.completed_date
          (snd (ClientServiceSession_save 200 empty_database (example_client_service_session 2 True (Some 150))))
        = None)
   \<and> (client_service_session.is_completed (example_client_service_session 1 False (Some 150))
    = (client_service_session.sessions_completed (example_client_service_session 1 False (Some 150))
      \<ge> service.sessions_required
           (client_service_session.service (example_client_service_session 1 False (Some 150))))
    \<and> client_service_session.completed_date
          (snd (ClientServiceSession_save 200 empty_database (example_client_service_session 1 False (Some 150))))
        = Some 150)"
proof -
  have f: "client_package.sessions_completed (example_client_package n c d) = n"
      "client_package.is_completed (example_client_package n c d) = c"
      "client_package.completed_date (example_client_package n c d) = d"
      "package.total_sessions (client_package.package (example_client_package n c d)) = 3"
      "client_service_session.sessions_completed (example_client_service_session n c d) = n"
      "client_service_session.is_completed (example_client_service_session n c d) = c"
      "client_service_session.completed_date (example_client_service_session n c d) = d"
      "service.sessions_required (client_service_session.service (example_client_service_session n c d)) = 3"
    for n c d
    by (simp_all add: example_client_package_def example_package_def
        example_client_service_session_def example_service_def)
  show ?thesis
    using
      save_recomputes_completion [where p = "example_client_package 3 False None" and today = 200
        and db = empty_database and s = "example_client_service_session 3 False None" and later = 200]
      save_recomputes_completion [where p = "example_client_package 2 True (Some 150)" and today = 200
        and db = empty_database and s = "example_client_service_session 2 True (Some 150)" and later = 200]
      save_recomputes_completion [where p = "example_client_package 1 False (Some 150)" and today = 200
        and db = empty_database and s = "example_client_service_session 1 False (Some 150)" and later = 200]
    by (simp add: Let_def f)
qed

section \<open>Properties of appointments\<close>































section \<open>Session tracking on completion\<close>

lemma write_row_find:
  assumes "key obj = Some k"
  shows "find (\<lambda>r. key r = Some k) (write_row key obj rows) = Some obj"
proof -
  have a: "find (\<lambda>r. key r = Some k) (map (\<lambda>r. if key r = Some k then obj else r) rows) = Some obj"
    if "list_ex (\<lambda>r. key r = Some k) rows" for rows
    using that assms by (induction rows) auto
  have b: "find (\<lambda>r. key r = Some k) (rows @ [obj]) = Some obj"
    if "\<not> list_ex (\<lambda>r. key r = Some k) rows"
    using that assms by (induction rows) auto
  show ?thesis
    using a [of rows] b by (simp add: write_row_def assms)
qed

lemma get_client_package_simps:
  "get_client_package (db\<lparr>appointments := x\<rparr>) k = get_client_package db k"
  "get_client_package (db\<lparr>client_service_sessions := y\<rparr>) k = get_client_package db k"
  "client_package.pk p = Some k \<Longrightarrow>
     get_client_package (db\<lparr>client_packages := write_row client_package.pk p rows\<rparr>) k = Some p"
  by (simp_all add: get_client_package_def write_row_find)


lemma super_save_cp_stored:
  "client_package.pk p = Some k \<Longrightarrow>
   super_save_client_package db p
     = (db\<lparr>client_packages := write_row client_package.pk p (client_packages db)\<rparr>, p)"
  by (simp add: super_save_client_package_def)


lemma add_session_cp_stored:
  assumes "\<not> client_package.is_completed p" and "client_package.pk p = Some k"
  obtains p1 where
    "ClientPackage_add_session today db p
       = (db\<lparr>client_packages := write_row client_package.pk p1 (client_packages db)\<rparr>, p1, True)"
    and "client_package.pk p1 = Some k"
    and "client_package.sessions_completed p1 = client_package.sessions_completed p + 1"
    and "client_package.package p1 = client_package.package p"
    and "client_package.client p1 = client_package.client p"
    and "client_package.is_completed p1
           = (package.total_sessions (client_package.package p) \<le> client_package.sessions_completed p + 1)"
proof -
  define p1 where "p1 =
     (if client_package.sessions_completed p + 1 \<ge> package.total_sessions (client_package.package p)
      then p\<lparr>client_package.sessions_completed := client_package.sessions_completed p + 1,
              client_package.is_completed := True, client_package.completed_date := Some today\<rparr>
      else p\<lparr>client_package.sessions_completed := client_package.sessions_completed p + 1\<rparr>)"
  have k: "client_package.pk p1 = Some k" using assms(2) by (simp add: p1_def)
  have "ClientPackage_add_session today db p
       = (db\<lparr>client_packages := write_row client_package.pk p1 (client_packages db)\<rparr>, p1, True)"
  proof -
    have "ClientPackage_add_session today db p
        = (fst (super_save_client_package db p1), snd (super_save_client_package db p1), True)"
      unfolding add_session_cp_open [OF assms(1)] Let_def p1_def ..
    then show ?thesis by (simp add: super_save_cp_stored [OF k])
  qed
  moreover have "client_package.sessions_completed p1 = client_package.sessions_completed p + 1"
    "client_package.package p1 = client_package.package p"
    "client_package.client p1 = client_package.client p"
    "client_package.is_completed p1
           = (package.total_sessions (client_package.package p) \<le> client_package.sessions_completed p + 1)"
    using assms(1) by (simp_all add: p1_def)
  ultimately show thesis using k that by blast
qed


lemma Appointment_save_linked_package:
  assumes "appointment.pk a \<noteq> None" and "appointment.status a = Completed"
    and "appointment.client_package a = Some k"
    and "super_save_appointment db a uf = (db1, Inr a1)"
    and "get_client_package db1 k = Some p"
  shows "Appointment_save today db a uf = (fst (ClientPackage_add_session today db1 p), Inr a1)"
proof -
  have c: "Appointment_clean db a = Inr ()"
    using assms(1) by (auto simp: Appointment_clean_def)
  show ?thesis
    using assms c super_save_appointment_links [OF assms(4)]
    by (subst Appointment_save.simps) simp
qed


lemma Appointment_save_unlinked:
  assumes "appointment.pk a \<noteq> None" and "appointment.status a = Completed"
    and "appointment.client_package a = None" and "appointment.client_service_session a = None"
    and "super_save_appointment db a uf = (db1, Inr a1)"
  shows "Appointment_save today db a uf = Appointment_auto_track_session today db1 a1"
proof -
  have c: "Appointment_clean db a = Inr ()"
    using assms(1) by (auto simp: Appointment_clean_def)
  show ?thesis
    using assms c super_save_appointment_links [OF assms(5)]
    by (subst Appointment_save.simps) simp
qed


lemma super_save_appointment_stored:
  assumes "appointment.pk a = Some k"
    and "\<not> violates_unique_staff_appointment_time (appointments db) a"
  shows "super_save_appointment db a None
     = (db\<lparr>appointments := write_row appointment.pk a (appointments db)\<rparr>, Inr a)"
  using assms by (simp add: super_save_appointment_def)

lemma super_save_appointment_column:
  assumes "appointment.pk a = Some k" and "b \<in> set (appointments db)"
    and "appointment.pk b = Some k"
  shows "super_save_appointment db a (Some f)
     = (db\<lparr>appointments :=
             map (\<lambda>r. if appointment.pk r = appointment.pk a
                       then (case f of
                               Field_client_package \<Rightarrow>
                                 r\<lparr>appointment.client_package := appointment.client_package a\<rparr>
                             | Field_client_service_session \<Rightarrow>
                                 r\<lparr>appointment.client_service_session :=
                                      appointment.client_service_session a\<rparr>)
                       else r)
               (appointments db)\<rparr>, Inr a)"
proof -
  have "list_ex (\<lambda>r. appointment.pk r = appointment.pk a) (appointments db)"
    using assms by (auto simp: list_ex_iff)
  then show ?thesis using assms(1) by (simp add: super_save_appointment_def)
qed

lemma auto_track_package_exact:
  assumes k: "appointment.pk a = Some k" and st: "appointment.status a = Completed"
    and l1: "appointment.client_package a = None" and l2: "appointment.client_service_session a = None"
    and nv: "\<not> violates_unique_staff_appointment_time (appointments db) a"
    and act: "active_packages db a = p # ps" and kp: "client_package.pk p = Some kp"
  shows "\<exists>db' p'. Appointment_save today db a None
           = (db', Inr (a\<lparr>appointment.client_package := Some kp\<rparr>))
      \<and> a\<lparr>appointment.client_package := Some kp\<rparr> \<in> set (appointments db')
      \<and> get_client_package db' kp = Some p'
      \<and> client_package.sessions_completed p'
          = (if package.total_sessions (client_package.package p)
                  \<le> client_package.sessions_completed p + 1
             then client_package.sessions_completed p + 1
             else client_package.sessions_completed p + 2)
      \<and> client_package.package p' = client_package.package p
      \<and> client_package.client p' = client_package.client p
      \<and> client_service_sessions db' = client_service_sessions db"
proof -
  define db1 where "db1 = db\<lparr>appointments := write_row appointment.pk a (appointments db)\<rparr>"
  have s1: "super_save_appointment db a None = (db1, Inr a)"
    unfolding db1_def by (rule super_save_appointment_stored [OF k nv])
  have u: "Appointment_save today db a None = Appointment_auto_track_session today db1 a"
    by (rule Appointment_save_unlinked [OF _ st l1 l2 s1]) (simp add: k)
  have act1: "active_packages db1 a = p # ps"
    using act by (simp add: active_packages_def db1_def)
  have np: "\<not> client_package.is_completed p"
    by (rule active_packages_open [OF act])
  obtain p1 where p1:
      "ClientPackage_add_session today db1 p
         = (db1\<lparr>client_packages := write_row client_package.pk p1 (client_packages db1)\<rparr>, p1, True)"
      "client_package.pk p1 = Some kp"
      "client_package.sessions_completed p1 = client_package.sessions_completed p + 1"
      "client_package.package p1 = client_package.package p"
      "client_package.client p1 = client_package.client p"
      "client_package.is_completed p1
         = (package.total_sessions (client_package.package p) \<le> client_package.sessions_completed p + 1)"
    by (rule add_session_cp_stored [OF np kp])
  define db2 where "db2 = db1\<lparr>client_packages := write_row client_package.pk p1 (client_packages db1)\<rparr>"
  define a' where "a' = a\<lparr>appointment.client_package := Some kp\<rparr>"
  have ka': "appointment.pk a' = Some k" by (simp add: a'_def k)
  have t: "Appointment_auto_track_session today db1 a
      = Appointment_save today db2 a' (Some Field_client_package)"
    using act1 p1(1,2) by (subst Appointment_auto_track_session.simps) (simp add: db2_def a'_def)
  define db3 where "db3 = db2\<lparr>appointments :=
      map (\<lambda>r. if appointment.pk r = appointment.pk a'
                then r\<lparr>appointment.client_package := appointment.client_package a'\<rparr> else r)
        (appointments db2)\<rparr>"
  have m2: "a \<in> set (appointments db2)"
    by (simp add: db2_def db1_def write_row_mem)
  have s3: "super_save_appointment db2 a' (Some Field_client_package) = (db3, Inr a')"
    using super_save_appointment_column [OF ka' m2 k, of Field_client_package]
    by (simp add: db3_def)
  have g3: "get_client_package db3 kp = Some p1"
    by (simp add: db3_def db2_def get_client_package_simps p1(2))
  have n: "Appointment_save today db2 a' (Some Field_client_package)
      = (fst (ClientPackage_add_session today db3 p1), Inr a')"
    by (rule Appointment_save_linked_package [OF _ _ _ s3 g3]) (simp_all add: a'_def k st)
  define g :: "appointment \<Rightarrow> appointment"
    where "g = (\<lambda>r. if appointment.pk r = appointment.pk a'
                then r\<lparr>appointment.client_package := appointment.client_package a'\<rparr> else r)"
  have "g a = a'" by (simp add: g_def a'_def)
  with m2 have "a' \<in> set (map g (appointments db2))"
    by (metis image_eqI set_map)
  moreover have "appointments db3 = map g (appointments db2)"
    by (simp add: db3_def g_def)
  ultimately have m3: "a' \<in> set (appointments db3)"
    by (simp only:)
  have c3: "client_service_sessions db3 = client_service_sessions db"
    by (simp add: db3_def db2_def db1_def)
  show ?thesis
  proof (cases "client_package.is_completed p1")
    case True
    then have "ClientPackage_add_session today db3 p1 = (db3, p1, False)"
      by (simp add: ClientPackage_add_session_def)
    with u t n have "Appointment_save today db a None = (db3, Inr a')" by simp
    moreover have "client_package.sessions_completed p1
          = (if package.total_sessions (client_package.package p)
                  \<le> client_package.sessions_completed p + 1
             then client_package.sessions_completed p + 1
             else client_package.sessions_completed p + 2)"
      using True p1(3,6) by simp
    ultimately show ?thesis
      using m3 g3 p1(4,5) c3 unfolding a'_def
      by (intro exI [of _ db3] exI [of _ p1]) simp
  next
    case False
    obtain p2 where p2:
      "ClientPackage_add_session today db3 p1
         = (db3\<lparr>client_packages := write_row client_package.pk p2 (client_packages db3)\<rparr>, p2, True)"
      "client_package.pk p2 = Some kp"
      "client_package.sessions_completed p2 = client_package.sessions_completed p1 + 1"
      "client_package.package p2 = client_package.package p1"
      "client_package.client p2 = client_package.client p1"
      by (rule add_session_cp_stored [OF False p1(2)])
    define db4 where "db4 = db3\<lparr>client_packages := write_row client_package.pk p2 (client_packages db3)\<rparr>"
    from u t n p2(1) have "Appointment_save today db a None = (db4, Inr a')"
      by (simp add: db4_def)
    moreover have "a' \<in> set (appointments db4)" using m3 by (simp add: db4_def)
    moreover have "get_client_package db4 kp = Some p2"
      by (simp add: db4_def get_client_package_simps p2(2))
    moreover have "client_package.sessions_completed p2
          = (if package.total_sessions (client_package.package p)
                  \<le> client_package.sessions_completed p + 1
             then client_package.sessions_completed p + 1
             else client_package.sessions_completed p + 2)"
      using False p1(3,6) p2(3) by simp
    moreover have "client_service_sessions db4 = client_service_sessions db"
      using c3 by (simp add: db4_def)
    ultimately show ?thesis
      using p1(4,5) p2(4,5) unfolding a'_def
      by (intro exI [of _ db4] exI [of _ p2]) simp
  qed
qed












lemmas example_defs =
  example_database_def empty_database_def example_appointment_def example_service_def
  example_client_package_def example_package_def example_client_service_session_def at_time_def

lemma ex_unlinked:
  "completed_unlinked (example_database cps sessions n)
     (example_appointment (Some 1) n (at_time 10 0) Completed)"
  by (simp add: completed_unlinked_def violates_unique_staff_appointment_time_def example_defs)

lemma ex_active_one:
  "active_packages (example_database [example_client_package m False d] sessions n)
     (example_appointment (Some 1) n (at_time 10 0) Completed) = [example_client_package m False d]"
  by (simp add: active_packages_def example_defs)








text \<open>
  Beside the claim: the save that ends \<^verbatim>\<open>_auto_track_session\<close> is \<^verbatim>\<open>Appointment.save\<close>
  itself, which finds the appointment completed and now linked and calls
  \<^verbatim>\<open>add_session\<close> on the link once more. A package that the first session does not
  complete therefore ends two sessions further, as in the example with a package of
  three sessions of which none was completed.
\<close>

lemma auto_track_counts_twice:
  assumes "completed_unlinked db a" and "active_packages db a = p # ps"
    and "client_package.pk p = Some kp"
    and "client_package.sessions_completed p + 1 < package.total_sessions (client_package.package p)"
  shows "\<exists>db' p'. Appointment_save today db a None
                    = (db', Inr (a\<lparr>appointment.client_package := Some kp\<rparr>))
         \<and> get_client_package db' kp = Some p'
         \<and> client_package.sessions_completed p' = client_package.sessions_completed p + 2"
proof -
  from assms(1) obtain k where k: "appointment.pk a = Some k"
    by (auto simp: completed_unlinked_def)
  from assms(1) have c: "appointment.status a = Completed" "appointment.client_package a = None"
      "appointment.client_service_session a = None"
      "\<not> violates_unique_staff_appointment_time (appointments db) a"
    by (simp_all add: completed_unlinked_def)
  from auto_track_package_exact [OF k c assms(2,3), of today]
  obtain db' p' where r: "Appointment_save today db a None
           = (db', Inr (a\<lparr>appointment.client_package := Some kp\<rparr>))"
      "get_client_package db' kp = Some p'"
      "client_package.sessions_completed p'
          = (if package.total_sessions (client_package.package p)
                  \<le> client_package.sessions_completed p + 1
             then client_package.sessions_completed p + 1
             else client_package.sessions_completed p + 2)"
    by auto
  show ?thesis
    using r assms(4) by (intro exI [of _ db'] exI [of _ p']) simp
qed

lemma auto_track_counts_twice_example:
  "\<exists>db' p'. Appointment_save 400 (example_database [example_client_package 0 False None] [] 1)
               (example_appointment (Some 1) 1 (at_time 10 0) Completed) None
             = (db', Inr ((example_appointment (Some 1) 1 (at_time 10 0) Completed)
                            \<lparr>appointment.client_package := Some 1\<rparr>))
      \<and> get_client_package db' 1 = Some p'
      \<and> client_package.sessions_completed p' = 2"
proof -
  have f: "client_package.pk (example_client_package 0 False None) = Some 1"
    "client_package.sessions_completed (example_client_package 0 False None) + 1
       < package.total_sessions (client_package.package (example_client_package 0 False None))"
    "client_package.sessions_completed (example_client_package 0 False None) + 2 = 2"
    by (simp_all add: example_defs)
  from auto_track_counts_twice [OF ex_unlinked ex_active_one f(1,2), where today = 400]
  show ?thesis by (simp only: f(3))
qed

section \<open>Properties of packages\<close>

lemma Package_save_stored:
  assumes "package.pk self = Some k"
  shows "Package_save db self =
     (db\<lparr>packages := write_row package.pk self (packages db)\<rparr>,
      if k \<noteq> 0 \<and> linked_services db self \<noteq> []
      then (if length (linked_services db self) < 3
            then Inl (ValidationError ''Package must include at least 3 services.'')
            else if length (linked_services db self) > 5
            then Inl (ValidationError ''Package cannot include more than 5 services.'')
            else Inr self)
      else Inr self)"
proof -
  have s: "super_save_package db self = (db\<lparr>packages := write_row package.pk self (packages db)\<rparr>, self)"
    using assms by (simp add: super_save_package_def)
  have l: "linked_services (db\<lparr>packages := x\<rparr>) self = linked_services db self" for x
    by (simp add: linked_services_def)
  show ?thesis
    using assms by (simp add: Package_save_def s l Package_clean_def truthy_pk_def Let_def)
qed

lemma ex_linked:
  "linked_services (linked_database ss) example_package = ss"
  by (simp add: linked_services_def linked_database_def example_package_def empty_database_def
      filter_map comp_def)

text \<open>
  Claim C6 (as amended). Saving a package that has a key (not zero, as every key the
  store assigns) with one, two, or more than five linked services fails validation; the
  package row has been written by then. With three to five linked services the save
  succeeds. A package with no linked services is saved without validation.
\<close>

theorem package_service_count_checked:
  "(package.pk self = Some k \<and> 0 < k
      \<and> (length (linked_services db self) = 1 \<or> length (linked_services db self) = 2
          \<or> 5 < length (linked_services db self))
      \<longrightarrow> is_validation_error (snd (Package_save db self)))
   \<and> (package.pk self = Some k \<and> 0 < k
      \<and> 3 \<le> length (linked_services db self) \<and> length (linked_services db self) \<le> 5
      \<longrightarrow> snd (Package_save db self) = Inr self)
   \<and> (package.pk self = Some k \<and> length (linked_services db self) = 0
      \<longrightarrow> snd (Package_save db self) = Inr self)
   \<and> (package.pk self = Some k
      \<longrightarrow> fst (Package_save db self) = db\<lparr>packages := write_row package.pk self (packages db)\<rparr>)"
proof (intro conjI impI)
  assume h: "package.pk self = Some k \<and> 0 < k
      \<and> (length (linked_services db self) = 1 \<or> length (linked_services db self) = 2
          \<or> 5 < length (linked_services db self))"
  then have "linked_services db self \<noteq> []" by auto
  with h show "is_validation_error (snd (Package_save db self))"
    by (auto simp: Package_save_stored [of self k])
next
  assume h: "package.pk self = Some k \<and> 0 < k
      \<and> 3 \<le> length (linked_services db self) \<and> length (linked_services db self) \<le> 5"
  then show "snd (Package_save db self) = Inr self"
    by (auto simp: Package_save_stored [of self k])
next
  assume "package.pk self = Some k \<and> length (linked_services db self) = 0"
  then show "snd (Package_save db self) = Inr self"
    by (simp add: Package_save_stored [of self k])
next
  assume "package.pk self = Some k"
  then show "fst (Package_save db self) = db\<lparr>packages := write_row package.pk self (packages db)\<rparr>"
    by (simp add: Package_save_stored [of self k])
qed

theorem package_service_count_checked_witness:
  "package.pk example_package = Some 1 \<and> (0::nat) < 1
   \<and> length (linked_services (linked_database [7, 8]) example_package) = 2
   \<and> is_validation_error (snd (Package_save (linked_database [7, 8]) example_package))
   \<and> 5 < length (linked_services (linked_database [1, 2, 3, 4, 5, 6]) example_package)
   \<and> is_validation_error (snd (Package_save (linked_database [1, 2, 3, 4, 5, 6]) example_package))
   \<and> 3 \<le> length (linked_services (linked_database [7, 8, 9]) example_package)
   \<and> length (linked_services (linked_database [7, 8, 9]) example_package) \<le> 5
   \<and> snd (Package_save (linked_database [7, 8, 9]) example_package) = Inr example_package
   \<and> length (linked_services (linked_database []) example_package) = 0
   \<and> snd (Package_save (linked_database []) example_package) = Inr example_package
   \<and> fst (Package_save (linked_database []) example_package)
       = (linked_database [])\<lparr>packages :=
            write_row package.pk example_package (packages (linked_database []))\<rparr>"
proof -
  have k: "package.pk example_package = Some 1" by (simp add: example_package_def)
  have w2: "is_validation_error (snd (Package_save (linked_database [7, 8]) example_package))"
    using package_service_count_checked [where self = example_package and k = 1
        and db = "linked_database [7, 8]"] k
    by (simp add: ex_linked)
  have w6: "is_validation_error (snd (Package_save (linked_database [1, 2, 3, 4, 5, 6]) example_package))"
    using package_service_count_checked [where self = example_package and k = 1
        and db = "linked_database [1, 2, 3, 4, 5, 6]"] k
    by (simp add: ex_linked)
  have w3: "snd (Package_save (linked_database [7, 8, 9]) example_package) = Inr example_package"
    using package_service_count_checked [where self = example_package and k = 1
        and db = "linked_database [7, 8, 9]"] k
    by (simp add: ex_linked)
  have w0: "snd (Package_save (linked_database []) example_package) = Inr example_package"
     "fst (Package_save (linked_database []) example_package)
       = (linked_database [])\<lparr>packages :=
            write_row package.pk example_package (packages (linked_database []))\<rparr>"
    using package_service_count_checked [where self = example_package and k = 1
        and db = "linked_database []"] k
    by (simp_all add: ex_linked)
  show ?thesis
    using k w2 w6 w3 w0 by (simp add: ex_linked)
qed

theorem package_without_services_counterexample:
  "package.pk example_package = Some 1
   \<and> length (linked_services (linked_database []) example_package) = 0
   \<and> snd (Package_save (linked_database []) example_package) = Inr example_package"
proof -
  have k: "package.pk example_package = Some 1" by (simp add: example_package_def)
  show ?thesis
    by (simp add: Package_save_stored [OF k] ex_linked k)
qed

section \<open>Properties of the point of sale\<close>






























end
